theory Spec2Isabelle
  imports Complex_Main
begin

section \<open>Application firewall prototype: data model\<close>

text \<open>
  The development follows \<^verbatim>\<open>app_firewall.py\<close> and \<^verbatim>\<open>cleanup_anomalies_script.py\<close>.
  The SQLite file \<^verbatim>\<open>firewall_policies.db\<close> is the state. A value of type \<open>db\<close> is
  the file with both tables of \<^verbatim>\<open>DatabaseManager.init_db\<close> in it; a table is the list
  of its rows in insertion order. The functions that run SQL are modelled on such a
  database. The file may also be absent or hold no table, after
  \<^verbatim>\<open>remove_database_file\<close>: that is the value \<open>None\<close> of type \<open>db option\<close>, which the
  sequences of operations at the end of the definitions work on. Calls of
  \<^verbatim>\<open>logging\<close> and \<^verbatim>\<open>print\<close> are not modelled.
\<close>

text \<open>
  The exceptions of the Python code that the model distinguishes.
  \<^verbatim>\<open>IntegrityError\<close> and \<^verbatim>\<open>OperationalError\<close> are the two subclasses of
  \<^verbatim>\<open>sqlite3.Error\<close> among them.
\<close>

datatype exn =
    AttributeError
  | KeyError
  | ValueError
  | OverflowError
  | IntegrityError
  | OperationalError
  | NoSuchProcess
  | AccessDenied


type_synonym 'a res = "exn + 'a"

text \<open>
  A \<^verbatim>\<open>datetime\<close> is represented by the text that \<^verbatim>\<open>str()\<close> gives for it, which is
  what \<^verbatim>\<open>_log_network_activity\<close> stores.
\<close>

type_synonym datetime = string

text \<open>
  The dictionary \<^verbatim>\<open>log_entry\<close> built by \<^verbatim>\<open>monitor_network_traffic\<close>, and a row of
  \<^verbatim>\<open>network_logs\<close>: the seven columns, \<^verbatim>\<open>id TEXT PRIMARY KEY\<close>. The byte counts
  of the dictionary are Python integers, without bound.
\<close>

record log_entry =
  log_id :: string
  log_app_name :: string
  timestamp :: datetime
  destination :: string
  protocol :: string
  bytes_sent :: int
  bytes_received :: int

text \<open>A row of \<^verbatim>\<open>app_policies\<close>; the three lists are stored comma-separated.\<close>

record policy_row =
  policy_id :: string
  policy_app_name :: string
  allowed_domains :: string
  allowed_ips :: string
  allowed_protocols :: string
  is_active :: bool

text \<open>
  Every function opens a connection of its own. \<open>write_locked\<close> says that some
  connection holds the write lock of the file: a statement that writes then fails with
  \<^verbatim>\<open>sqlite3.OperationalError\<close> (database is locked), while reading goes on. A
  connection that a function leaves open keeps its lock until the interpreter reclaims
  the connection object; the model has no step for that, and the properties below are
  stated for locked and unlocked files alike.
\<close>

record db =
  app_policies :: "policy_row list"
  network_logs :: "log_entry list"
  write_locked :: bool

definition new_db :: db where
  "new_db = \<lparr>app_policies = [], network_logs = [], write_locked = False\<rparr>"

text \<open>
  \<^verbatim>\<open>init_db\<close>: \<^verbatim>\<open>sqlite3.connect\<close> creates the file when there is none, and both
  statements are \<^verbatim>\<open>CREATE TABLE IF NOT EXISTS\<close>, which on existing tables change
  nothing and take no write lock.
\<close>

definition init_db :: "db option \<Rightarrow> db" where
  "init_db f = (case f of None \<Rightarrow> new_db | Some d \<Rightarrow> d)"

subsection \<open>The log store\<close>

text \<open>\<^verbatim>\<open>SELECT COUNT(*) FROM network_logs\<close> and \<^verbatim>\<open>SELECT * FROM network_logs\<close>.\<close>

definition count_logs :: "db \<Rightarrow> nat" where
  "count_logs d = length (network_logs d)"

definition select_all_logs :: "db \<Rightarrow> log_entry list" where
  "select_all_logs d = network_logs d"

text \<open>An \<^verbatim>\<open>INTEGER\<close> of SQLite is a signed 64-bit number.\<close>

definition sqlite_integer :: "int \<Rightarrow> bool" where
  "sqlite_integer n \<longleftrightarrow> - (2 ^ 63) \<le> n \<and> n < 2 ^ 63"

text \<open>
  \<^verbatim>\<open>_log_network_activity\<close>: a plain \<^verbatim>\<open>INSERT\<close>, in the order in which
  \<^verbatim>\<open>cursor.execute\<close> works.
  \<^item> Binding a byte count outside 64 bits raises \<^verbatim>\<open>OverflowError\<close> before the
    statement runs.
  \<^item> The statement needs the write lock; when another connection holds it, it raises
    \<^verbatim>\<open>OperationalError\<close>.
  \<^item> The column \<^verbatim>\<open>id\<close> is the primary key: when a row with that id exists, the
    statement raises \<^verbatim>\<open>IntegrityError\<close>. The function has no handler and ends there,
    before \<^verbatim>\<open>conn.commit()\<close> and \<^verbatim>\<open>conn.close()\<close>: no row is added, and the
    connection stays open with the write lock it took.
  \<^item> Otherwise the row is added, committed, and the connection closed.
\<close>

definition log_network_activity :: "log_entry \<Rightarrow> db \<Rightarrow> unit res \<times> db" where
  "log_network_activity e d =
     (if \<not> sqlite_integer (bytes_sent e) \<or> \<not> sqlite_integer (bytes_received e)
      then (Inl OverflowError, d)
      else if write_locked d
      then (Inl OperationalError, d)
      else if log_id e \<in> set (map log_id (network_logs d))
      then (Inl IntegrityError, d\<lparr>write_locked := True\<rparr>)
      else (Inr (), d\<lparr>network_logs := network_logs d @ [e]\<rparr>))"

text \<open>\<^verbatim>\<open>get_app_logs\<close>: \<^verbatim>\<open>SELECT * FROM network_logs WHERE app_name = ?\<close>.\<close>

definition get_app_logs :: "string \<Rightarrow> db \<Rightarrow> log_entry list" where
  "get_app_logs app d = filter (\<lambda>r. log_app_name r = app) (network_logs d)"

text \<open>
  \<^verbatim>\<open>cleanup_network_logs\<close> of the cleanup script: \<^verbatim>\<open>DELETE FROM network_logs\<close>,
  committed. The body is inside \<^verbatim>\<open>try\<close> with \<^verbatim>\<open>except sqlite3.Error\<close>, whose handler
  prints: when the file is write-locked the statement raises, the function returns
  normally and the rows are still there.
\<close>

definition cleanup_network_logs :: "db \<Rightarrow> db" where
  "cleanup_network_logs d = (if write_locked d then d else d\<lparr>network_logs := []\<rparr>)"

text \<open>
  \<^verbatim>\<open>remove_database_file\<close> of the cleanup script, on the file: when the file exists,
  \<^verbatim>\<open>os.remove\<close> deletes it; the first argument is the outcome of \<^verbatim>\<open>os.remove\<close>, and
  an exception of it is caught by the handler, which prints.
\<close>

definition remove_database_file :: "unit res \<Rightarrow> db option \<Rightarrow> db option" where
  "remove_database_file os_remove f =
     (case f of
        None \<Rightarrow> None
      | Some d \<Rightarrow> (case os_remove of Inl e \<Rightarrow> Some d | Inr u \<Rightarrow> None))"

subsection \<open>The policy store\<close>

text \<open>
  The JSON body of \<^verbatim>\<open>POST /policy/create\<close>. Every key may be absent:
  \<^verbatim>\<open>data['app_name']\<close> raises \<^verbatim>\<open>KeyError\<close> then, the other four are read with
  \<^verbatim>\<open>data.get\<close> and a default.
\<close>

record policy_request =
  req_app_name :: "string option"
  req_allowed_domains :: "string list option"
  req_allowed_ips :: "string list option"
  req_allowed_protocols :: "string list option"
  req_is_active :: "bool option"

text \<open>\<^verbatim>\<open>sep.join(xs)\<close> of Python.\<close>

fun join :: "string \<Rightarrow> string list \<Rightarrow> string" where
  "join sep [] = []"
| "join sep [x] = x"
| "join sep (x # y # ys) = x @ sep @ join sep (y # ys)"

text \<open>
  \<^verbatim>\<open>INSERT OR REPLACE\<close> on a table with primary key \<^verbatim>\<open>id\<close>: a row with the same
  id is deleted, then the new row is inserted.
\<close>

definition insert_or_replace :: "policy_row \<Rightarrow> policy_row list \<Rightarrow> policy_row list" where
  "insert_or_replace row rows = filter (\<lambda>r. policy_id r \<noteq> policy_id row) rows @ [row]"

text \<open>
  The tuple of values bound to the statement of \<^verbatim>\<open>create_policy\<close>; \<open>uuid4\<close> is
  the value of \<^verbatim>\<open>str(uuid.uuid4())\<close> in the call.
\<close>

definition policy_values :: "string \<Rightarrow> string \<Rightarrow> policy_request \<Rightarrow> policy_row" where
  "policy_values uuid4 app data =
     \<lparr>policy_id = uuid4,
      policy_app_name = app,
      allowed_domains = join '','' (case req_allowed_domains data of None \<Rightarrow> [] | Some xs \<Rightarrow> xs),
      allowed_ips = join '','' (case req_allowed_ips data of None \<Rightarrow> [] | Some xs \<Rightarrow> xs),
      allowed_protocols = join '','' (case req_allowed_protocols data of None \<Rightarrow> [] | Some xs \<Rightarrow> xs),
      is_active = (case req_is_active data of None \<Rightarrow> True | Some b \<Rightarrow> b)\<rparr>"

text \<open>
  \<^verbatim>\<open>create_policy\<close>. A missing \<^verbatim>\<open>app_name\<close> raises \<^verbatim>\<open>KeyError\<close> while the tuple is
  built, before the statement runs; the statement writes, so it raises
  \<^verbatim>\<open>OperationalError\<close> on a write-locked file.
\<close>

definition create_policy :: "string \<Rightarrow> policy_request \<Rightarrow> db \<Rightarrow> unit res \<times> db" where
  "create_policy uuid4 data d =
     (case req_app_name data of
        None \<Rightarrow> (Inl KeyError, d)
      | Some app \<Rightarrow>
          if write_locked d then (Inl OperationalError, d)
          else (Inr (), d\<lparr>app_policies :=
                  insert_or_replace (policy_values uuid4 app data) (app_policies d)\<rparr>))"

text \<open>
  The active rows of an application, in table order. No function of the source reads
  \<^verbatim>\<open>app_policies\<close>; this selection only serves to state properties of the table.
\<close>

definition active_rows :: "string \<Rightarrow> db \<Rightarrow> policy_row list" where
  "active_rows app d = filter (\<lambda>r. policy_app_name r = app \<and> is_active r) (app_policies d)"

subsection \<open>Process snapshot\<close>

datatype py_value = PyNone | PyInt int | PyStr string

text \<open>
  A process as \<^verbatim>\<open>psutil.process_iter(['pid', 'name', 'exe'])\<close> yields it. The
  iterator leaves out a process that has gone, and fills \<^verbatim>\<open>proc.info\<close> with all
  three keys; an attribute it may not read (access denied) has the value \<^verbatim>\<open>None\<close>.
\<close>

record process =
  proc_pid :: int
  proc_name :: "string option"
  proc_exe :: "string option"

definition py_str :: "string option \<Rightarrow> py_value" where
  "py_str x = (case x of None \<Rightarrow> PyNone | Some s \<Rightarrow> PyStr s)"

text \<open>The dictionary \<^verbatim>\<open>proc.info\<close>.\<close>

definition info :: "process \<Rightarrow> (string \<rightharpoonup> py_value)" where
  "info proc = map_of [(''pid'', PyInt (proc_pid proc)),
                       (''name'', py_str (proc_name proc)),
                       (''exe'', py_str (proc_exe proc))]"

record process_descriptor =
  pid :: py_value
  name :: py_value
  path :: py_value

text \<open>
  The dictionary literal in the loop body of \<^verbatim>\<open>get_running_processes\<close>:
  \<^verbatim>\<open>proc.info['pid']\<close>, \<^verbatim>\<open>proc.info['name']\<close> and
  \<^verbatim>\<open>proc.info.get('exe', 'Unknown')\<close>, whose default stands for a missing key.
\<close>

definition describe :: "process \<Rightarrow> process_descriptor res" where
  "describe proc =
     (case info proc ''pid'' of
        None \<Rightarrow> Inl KeyError
      | Some p \<Rightarrow>
          (case info proc ''name'' of
             None \<Rightarrow> Inl KeyError
           | Some n \<Rightarrow>
               Inr \<lparr>pid = p, name = n,
                    path = (case info proc ''exe'' of None \<Rightarrow> PyStr ''Unknown'' | Some x \<Rightarrow> x)\<rparr>))"

text \<open>
  The loop: \<^verbatim>\<open>except (psutil.NoSuchProcess, psutil.AccessDenied): pass\<close> goes on with
  the next process; any other exception leaves the function.
\<close>

fun process_loop :: "process list \<Rightarrow> process_descriptor list \<Rightarrow> process_descriptor list res" where
  "process_loop [] processes = Inr processes"
| "process_loop (proc # procs) processes =
     (case describe proc of
        Inl e \<Rightarrow> (if e = NoSuchProcess \<or> e = AccessDenied
                  then process_loop procs processes
                  else Inl e)
      | Inr d \<Rightarrow> process_loop procs (processes @ [d]))"

definition get_running_processes :: "process list \<Rightarrow> process_descriptor list res" where
  "get_running_processes procs = process_loop procs []"

subsection \<open>Telemetry collection\<close>

text \<open>
  A connection as \<^verbatim>\<open>psutil.net_connections()\<close> yields it: a tuple with the fields
  \<^verbatim>\<open>fd\<close>, \<^verbatim>\<open>family\<close>, \<^verbatim>\<open>type\<close>, \<^verbatim>\<open>laddr\<close>, \<^verbatim>\<open>raddr\<close>, \<^verbatim>\<open>status\<close> and
  \<^verbatim>\<open>pid\<close>. The record has the fields that matter here: \<^verbatim>\<open>laddr\<close> and \<^verbatim>\<open>raddr\<close>
  are an address or the empty tuple (\<open>None\<close>); \<open>type_name\<close> is \<^verbatim>\<open>conn.type.name\<close>
  when \<^verbatim>\<open>conn.type\<close> has that attribute; \<open>conn_pid\<close> is \<^verbatim>\<open>pid\<close>, which the source
  does not read.
\<close>

record addr =
  ip :: string
  port :: nat

record sconn =
  conn_pid :: "nat option"
  laddr :: "addr option"
  raddr :: "addr option"
  type_name :: "string option"

text \<open>
  \<^verbatim>\<open>conn.sent\<close> and \<^verbatim>\<open>conn.recv\<close>: the tuple has no such field, so reading either
  raises \<^verbatim>\<open>AttributeError\<close>.
\<close>

definition sent :: "sconn \<Rightarrow> int option res" where
  "sent conn = Inl AttributeError"

definition recv :: "sconn \<Rightarrow> int option res" where
  "recv conn = Inl AttributeError"

text \<open>\<^verbatim>\<open>x or 0\<close> on an optional integer: \<^verbatim>\<open>None\<close> and \<^verbatim>\<open>0\<close> give \<^verbatim>\<open>0\<close>.\<close>

definition or_zero :: "int option \<Rightarrow> int" where
  "or_zero x = (case x of None \<Rightarrow> 0 | Some n \<Rightarrow> n)"

text \<open>Decimal text of a port number, for the f-string.\<close>

fun str_nat :: "nat \<Rightarrow> string" where
  "str_nat n =
     (if n < 10 then [''0123456789'' ! n]
      else str_nat (n div 10) @ [''0123456789'' ! (n mod 10)])"

declare str_nat.simps [simp del]

text \<open>
  The dictionary \<^verbatim>\<open>log_entry\<close> of one iteration, its values in the order of the
  literal; \<open>uuid4\<close> and \<open>now\<close> are the values of \<^verbatim>\<open>str(uuid.uuid4())\<close> and
  \<^verbatim>\<open>datetime.now()\<close> in it.
\<close>

definition make_log_entry :: "string \<Rightarrow> string \<Rightarrow> datetime \<Rightarrow> sconn \<Rightarrow> log_entry res" where
  "make_log_entry app_name uuid4 now conn =
     (case raddr conn of
        None \<Rightarrow> Inl AttributeError
      | Some a \<Rightarrow>
          (case sent conn of
             Inl e \<Rightarrow> Inl e
           | Inr s \<Rightarrow>
               (case recv conn of
                  Inl e \<Rightarrow> Inl e
                | Inr r \<Rightarrow>
                    Inr \<lparr>log_id = uuid4,
                         log_app_name = app_name,
                         timestamp = now,
                         destination = ip a @ '':'' @ str_nat (port a),
                         protocol = (case type_name conn of
                                       None \<Rightarrow> ''Unknown''
                                     | Some n \<Rightarrow> n),
                         bytes_sent = or_zero s,
                         bytes_received = or_zero r\<rparr>)))"

text \<open>One iteration of the \<^verbatim>\<open>for\<close> loop: build the entry, insert it.\<close>

definition monitor_step :: "string \<Rightarrow> string \<Rightarrow> datetime \<Rightarrow> sconn \<Rightarrow> db \<Rightarrow> unit res \<times> db" where
  "monitor_step app_name uuid4 now conn d =
     (case make_log_entry app_name uuid4 now conn of
        Inl e \<Rightarrow> (Inl e, d)
      | Inr log_entry \<Rightarrow> log_network_activity log_entry d)"

text \<open>
  The loop over the selected connections; \<open>uuids i\<close> and \<open>clock i\<close> are the values
  drawn in iteration \<open>i\<close> of the pass. An exception leaves the loop.
\<close>

fun monitor_loop ::
  "string \<Rightarrow> (nat \<Rightarrow> string) \<Rightarrow> (nat \<Rightarrow> datetime) \<Rightarrow> nat \<Rightarrow> sconn list \<Rightarrow> db \<Rightarrow> unit res \<times> db" where
  "monitor_loop app_name uuids clock i [] d = (Inr (), d)"
| "monitor_loop app_name uuids clock i (conn # conns) d =
     (case monitor_step app_name (uuids i) (clock i) conn d of
        (Inl e, d') \<Rightarrow> (Inl e, d')
      | (Inr u, d') \<Rightarrow> monitor_loop app_name uuids clock (Suc i) conns d')"

text \<open>The condition of the list comprehension: \<^verbatim>\<open>conn.laddr and conn.raddr\<close>.\<close>

definition has_both_addresses :: "sconn \<Rightarrow> bool" where
  "has_both_addresses conn \<longleftrightarrow> laddr conn \<noteq> None \<and> raddr conn \<noteq> None"

text \<open>
  \<^verbatim>\<open>monitor_network_traffic\<close>. The second argument is what
  \<^verbatim>\<open>psutil.net_connections()\<close> gives: the connections or an exception. The whole
  body is inside \<^verbatim>\<open>try\<close> with \<^verbatim>\<open>except Exception\<close>, whose handler only logs, so the
  function returns normally; inserts committed before an exception stay.
\<close>

definition monitor_network_traffic ::
  "string \<Rightarrow> sconn list res \<Rightarrow> (nat \<Rightarrow> string) \<Rightarrow> (nat \<Rightarrow> datetime) \<Rightarrow> db \<Rightarrow> unit res \<times> db" where
  "monitor_network_traffic app_name net_connections uuids clock d =
     (case net_connections of
        Inl e \<Rightarrow> (Inr (), d)
      | Inr all_conns \<Rightarrow>
          (let connections = filter has_both_addresses all_conns
           in case monitor_loop app_name uuids clock 0 connections d of
                (Inl e, d') \<Rightarrow> (Inr (), d')
              | (Inr u, d') \<Rightarrow> (Inr (), d')))"

subsection \<open>Anomaly detection\<close>

text \<open>
  \<^verbatim>\<open>IsolationForest\<close> of scikit-learn is outside the repository and is a parameter.
  \<open>fit\<close> gets the state of NumPy's global random generator at the call (type \<open>'g\<close>),
  the arguments \<^verbatim>\<open>contamination\<close> and \<^verbatim>\<open>random_state\<close> of the constructor and the
  feature rows, and gives the fitted model or an exception; \<open>predict\<close> gives one
  label per row, \<open>1\<close> or \<open>-1\<close>, or an exception.
\<close>

record ('g, 'm) isolation_forest =
  fit :: "'g \<Rightarrow> rat \<Rightarrow> nat option \<Rightarrow> (int \<times> int) list \<Rightarrow> 'm res"
  predict :: "'m \<Rightarrow> (int \<times> int) list \<Rightarrow> int list res"

text \<open>
  The \<^verbatim>\<open>try\<close> block of \<^verbatim>\<open>detect_anomalies\<close> on the data frame \<open>df\<close>. Selecting rows
  with a boolean mask of another length than the frame raises.
\<close>

definition detect_body :: "('g, 'm) isolation_forest \<Rightarrow> 'g \<Rightarrow> log_entry list \<Rightarrow> log_entry list res" where
  "detect_body sklearn g df =
     (let features = map (\<lambda>r. (bytes_sent r, bytes_received r)) df
      in case fit sklearn g (1 / 10) (Some 42) features of
           Inl e \<Rightarrow> Inl e
         | Inr clf \<Rightarrow>
             (case predict sklearn clf features of
                Inl e \<Rightarrow> Inl e
              | Inr predictions \<Rightarrow>
                  if length predictions \<noteq> length df then Inl ValueError
                  else Inr (map fst (filter (\<lambda>(r, p). p = - 1) (zip df predictions)))))"

text \<open>
  \<^verbatim>\<open>detect_anomalies\<close>: the early return below ten rows, then the \<^verbatim>\<open>try\<close> block,
  whose handler returns the empty list.
\<close>

definition detect_anomalies :: "('g, 'm) isolation_forest \<Rightarrow> 'g \<Rightarrow> db \<Rightarrow> log_entry list" where
  "detect_anomalies sklearn g d =
     (let log_count = count_logs d
      in if log_count < 10 then []
         else let df = select_all_logs d
              in case detect_body sklearn g df of
                   Inl e \<Rightarrow> []
                 | Inr anomalies \<Rightarrow> anomalies)"

subsection \<open>Sequences of operations\<close>

text \<open>
  The functions of the two files that work on the database file, with their arguments.
  \<^verbatim>\<open>detect_anomalies\<close> and \<^verbatim>\<open>get_app_logs\<close> only read. On a file without tables
  (\<open>None\<close>) every statement on a table raises \<^verbatim>\<open>OperationalError\<close> (no such table)
  and the file stays without tables; only \<^verbatim>\<open>init_db\<close> creates them.
\<close>

datatype operation =
    Init_db
  | Log_network_activity log_entry
  | Monitor_network_traffic string "sconn list res" "nat \<Rightarrow> string" "nat \<Rightarrow> datetime"
  | Detect_anomalies
  | Create_policy string policy_request
  | Get_app_logs string
  | Cleanup_network_logs
  | Remove_database_file "unit res"

fun exec :: "operation \<Rightarrow> db option \<Rightarrow> db option" where
  "exec Init_db f = Some (init_db f)"
| "exec (Log_network_activity e) f = map_option (\<lambda>d. snd (log_network_activity e d)) f"
| "exec (Monitor_network_traffic app nc uuids clock) f =
     map_option (\<lambda>d. snd (monitor_network_traffic app nc uuids clock d)) f"
| "exec Detect_anomalies f = f"
| "exec (Create_policy uuid4 data) f = map_option (\<lambda>d. snd (create_policy uuid4 data d)) f"
| "exec (Get_app_logs app) f = f"
| "exec Cleanup_network_logs f = map_option cleanup_network_logs f"
| "exec (Remove_database_file os_remove) f = remove_database_file os_remove f"

fun run :: "operation list \<Rightarrow> db option \<Rightarrow> db option" where
  "run [] f = f"
| "run (op # ops) f = run ops (exec op f)"

text \<open>The two operations of the cleanup script, which delete rows.\<close>

fun clears :: "operation \<Rightarrow> bool" where
  "clears Cleanup_network_logs = True"
| "clears (Remove_database_file os_remove) = True"
| "clears op = False"

section \<open>Example inputs\<close>

text \<open>Concrete values at which the properties below are evaluated.\<close>

definition request1 :: policy_request where
  "request1 = \<lparr>req_app_name = Some ''chrome.exe'',
     req_allowed_domains = Some [''example.com'', ''example.org''],
     req_allowed_ips = Some [''192.168.1.10''],
     req_allowed_protocols = Some [''TCP''],
     req_is_active = Some True\<rparr>"

definition proc_chrome :: process where
  "proc_chrome = \<lparr>proc_pid = 4242, proc_name = Some ''chrome.exe'',
     proc_exe = Some ''/opt/chrome/chrome.exe''\<rparr>"

text \<open>A process that denies access to its executable path.\<close>

definition proc_denied :: process where
  "proc_denied = \<lparr>proc_pid = 9, proc_name = Some ''svchost'', proc_exe = None\<rparr>"

definition conn_established :: sconn where
  "conn_established = \<lparr>conn_pid = Some 4242,
     laddr = Some \<lparr>ip = ''192.168.1.2'', port = 50000\<rparr>,
     raddr = Some \<lparr>ip = ''10.0.0.5'', port = 443\<rparr>,
     type_name = Some ''SOCK_STREAM''\<rparr>"

definition conn_listening :: sconn where
  "conn_listening = \<lparr>conn_pid = Some 4242,
     laddr = Some \<lparr>ip = ''0.0.0.0'', port = 8080\<rparr>,
     raddr = None,
     type_name = Some ''SOCK_STREAM''\<rparr>"

definition uuids0 :: "nat \<Rightarrow> string" where
  "uuids0 i = (if i = 0 then ''uuid-a'' else if i = 1 then ''uuid-b'' else ''uuid-c'')"

definition clock0 :: "nat \<Rightarrow> datetime" where
  "clock0 i = (if i = 0 then ''2024-01-01 00:00:00'' else ''2024-01-01 00:00:01'')"

definition sample :: "string \<Rightarrow> int \<Rightarrow> int \<Rightarrow> log_entry" where
  "sample i s r = \<lparr>log_id = i, log_app_name = ''chrome.exe'',
     timestamp = ''2024-01-01 00:00:00'', destination = ''10.0.0.5:443'',
     protocol = ''SOCK_STREAM'', bytes_sent = s, bytes_received = r\<rparr>"

definition logs9 :: "log_entry list" where
  "logs9 = [sample ''a0'' 100 200, sample ''a1'' 150 250, sample ''a2'' 300 100,
     sample ''a3'' 400 4000, sample ''a4'' 120 900, sample ''a5'' 2000 1000,
     sample ''a6'' 4500 100, sample ''a7'' 700 700, sample ''a8'' 50000 60000]"

definition logs10 :: "log_entry list" where
  "logs10 = logs9 @ [sample ''a9'' 130 140]"

text \<open>
  A stand-in for the library: the fitted model is a threshold, taken from the seed when
  one is given and from the global generator otherwise; a row whose byte counts add up
  to more than the threshold is labelled \<open>-1\<close>. Fitting no rows fails.
\<close>

definition toy_forest :: "(nat, int) isolation_forest" where
  "toy_forest = \<lparr>fit = (\<lambda>g c rs X. if X = [] then Inl ValueError
                       else Inr (case rs of None \<Rightarrow> int g | Some s \<Rightarrow> 1000 * int s)),
                 predict = (\<lambda>m X. Inr (map (\<lambda>(a, b). if m < a + b then - 1 else 1) X))\<rparr>"

text \<open>A library whose \<open>fit\<close> always fails.\<close>

definition failing_forest :: "(nat, int) isolation_forest" where
  "failing_forest = \<lparr>fit = (\<lambda>g c rs X. Inl ValueError),
                     predict = (\<lambda>m X. Inr (map (\<lambda>x. 1) X))\<rparr>"

definition entry1 :: log_entry where
  "entry1 = \<lparr>log_id = ''id-1'', log_app_name = ''chrome.exe'',
     timestamp = ''2024-01-01 00:00:00'', destination = ''10.0.0.5:443'',
     protocol = ''SOCK_STREAM'', bytes_sent = 120, bytes_received = 900\<rparr>"

definition entry1_again :: log_entry where
  "entry1_again = \<lparr>log_id = ''id-1'', log_app_name = ''updater.exe'',
     timestamp = ''2024-01-01 00:00:07'', destination = ''10.0.0.9:80'',
     protocol = ''SOCK_STREAM'', bytes_sent = 5, bytes_received = 6\<rparr>"

definition entry2 :: log_entry where
  "entry2 = \<lparr>log_id = ''id-2'', log_app_name = ''chrome.exe'',
     timestamp = ''2024-01-01 00:00:09'', destination = ''10.0.0.5:443'',
     protocol = ''SOCK_STREAM'', bytes_sent = 40, bytes_received = 50\<rparr>"

definition db_of :: "log_entry list \<Rightarrow> db" where
  "db_of logs = \<lparr>app_policies = [], network_logs = logs, write_locked = False\<rparr>"

definition ops1 :: "operation list" where
  "ops1 = [Init_db, Log_network_activity entry1, Create_policy ''uuid-a'' request1,
     Detect_anomalies,
     Monitor_network_traffic ''chrome.exe'' (Inr [conn_established, conn_listening]) uuids0 clock0,
     Log_network_activity entry2, Get_app_logs ''chrome.exe'',
     Log_network_activity entry1_again]"

section \<open>Properties\<close>

subsection \<open>Log store: duplicate ids\<close>



subsection \<open>Policy store\<close>

lemma insert_or_replace_fresh:
  "policy_id row \<notin> policy_id ` set rows \<Longrightarrow> insert_or_replace row rows = rows @ [row]"
  unfolding insert_or_replace_def by (simp add: filter_id_conv) (metis imageI)

lemma create_policy_fresh_id:
  assumes "req_app_name data = Some app"
      and "uuid4 \<notin> policy_id ` set (app_policies d)"
      and "\<not> write_locked d"
  shows "create_policy uuid4 data d
           = (Inr (), d\<lparr>app_policies := app_policies d @ [policy_values uuid4 app data]\<rparr>)"
proof -
  have "policy_id (policy_values uuid4 app data) = uuid4"
    by (simp add: policy_values_def)
  with assms show ?thesis
    by (simp add: create_policy_def insert_or_replace_fresh)
qed

text \<open>
  C2, the code at two identical requests. On a new database, \<^verbatim>\<open>create_policy\<close> is
  called twice with the same request for \<open>chrome.exe\<close>; the calls draw the ids
  \<open>uuid-a\<close> and \<open>uuid-b\<close>. The \<^verbatim>\<open>INSERT OR REPLACE\<close> finds no row with the new id,
  so nothing is replaced: the table then holds two rows for \<open>chrome.exe\<close>, equal but
  for the id, and both are active, where C2 has exactly one.
\<close>

theorem create_policy_twice_two_active_rows:
  "snd (create_policy ''uuid-b'' request1 (snd (create_policy ''uuid-a'' request1 new_db)))
     = new_db\<lparr>app_policies := [policy_values ''uuid-a'' ''chrome.exe'' request1,
                                policy_values ''uuid-b'' ''chrome.exe'' request1]\<rparr>
   \<and> length (active_rows ''chrome.exe''
        (snd (create_policy ''uuid-b'' request1 (snd (create_policy ''uuid-a'' request1 new_db))))) = 2"
  by (simp add: create_policy_def request1_def new_db_def insert_or_replace_def
      policy_values_def active_rows_def)

subsection \<open>Process snapshot\<close>

lemma describe_total:
  "describe proc = Inr \<lparr>pid = PyInt (proc_pid proc), name = py_str (proc_name proc),
                       path = py_str (proc_exe proc)\<rparr>"
  by (simp add: describe_def info_def)

lemma process_loop_all:
  "process_loop procs acc
     = Inr (acc @ map (\<lambda>proc. \<lparr>pid = PyInt (proc_pid proc), name = py_str (proc_name proc),
                               path = py_str (proc_exe proc)\<rparr>) procs)"
  by (induction procs arbitrary: acc) (simp_all add: describe_total)

text \<open>
  C10, the code at a process that denies access to its executable path. The iterator
  yields the process with \<^verbatim>\<open>exe\<close> set to \<^verbatim>\<open>None\<close>; the key is there, so the default
  of \<^verbatim>\<open>get\<close> is not used, and no exception reaches the handler of the loop. The
  process is returned, not skipped, and its \<^verbatim>\<open>path\<close> is \<^verbatim>\<open>None\<close>, not the text
  \<^verbatim>\<open>Unknown\<close>.
\<close>

theorem get_running_processes_denied_process:
  "get_running_processes [proc_chrome, proc_denied]
     = Inr [\<lparr>pid = PyInt 4242, name = PyStr ''chrome.exe'', path = PyStr ''/opt/chrome/chrome.exe''\<rparr>,
            \<lparr>pid = PyInt 9, name = PyStr ''svchost'', path = PyNone\<rparr>]"
  by (simp add: get_running_processes_def process_loop_all proc_chrome_def proc_denied_def py_str_def)

subsection \<open>Telemetry collection\<close>

lemma make_log_entry_fails:
  "make_log_entry app_name uuid4 now conn = Inl AttributeError"
  by (simp add: make_log_entry_def sent_def split: option.splits)

lemma monitor_step_fails:
  "monitor_step app_name uuid4 now conn d = (Inl AttributeError, d)"
  by (simp add: monitor_step_def make_log_entry_fails)

lemma monitor_loop_unchanged:
  "snd (monitor_loop app_name uuids clock i conns d) = d"
  by (cases conns) (simp_all add: monitor_step_fails)

lemma monitor_network_traffic_unchanged:
  "monitor_network_traffic app_name net_connections uuids clock d = (Inr (), d)"
proof (cases net_connections)
  case (Inl e)
  then show ?thesis by (simp add: monitor_network_traffic_def)
next
  case (Inr all_conns)
  obtain r d' where m: "monitor_loop app_name uuids clock 0 (filter has_both_addresses all_conns) d = (r, d')"
    by (cases "monitor_loop app_name uuids clock 0 (filter has_both_addresses all_conns) d")
  with monitor_loop_unchanged [of app_name uuids clock 0 "filter has_both_addresses all_conns" d]
  have "d' = d" by simp
  with Inr m show ?thesis
    by (cases r) (simp_all add: monitor_network_traffic_def)
qed


text \<open>
  C7, the code at one established socket. The pass is called for \<open>chrome.exe\<close> on a
  new database, with one connection that has a local and a remote address. Reading
  \<^verbatim>\<open>conn.sent\<close> raises \<^verbatim>\<open>AttributeError\<close> while the entry is built; the handler
  catches it and the pass ends: no record is produced for the socket, where C7 has one.
\<close>

theorem monitor_network_traffic_records_nothing:
  "has_both_addresses conn_established
   \<and> make_log_entry ''chrome.exe'' (uuids0 0) (clock0 0) conn_established = Inl AttributeError
   \<and> monitor_network_traffic ''chrome.exe'' (Inr [conn_established]) uuids0 clock0 new_db
       = (Inr (), new_db)
   \<and> network_logs new_db = []"
  by (simp add: has_both_addresses_def conn_established_def make_log_entry_def sent_def
      monitor_network_traffic_def monitor_step_def new_db_def)

subsection \<open>Anomaly detection\<close>

text \<open>
  C3. With fewer than ten rows in \<^verbatim>\<open>network_logs\<close>, and so with exactly nine,
  \<^verbatim>\<open>detect_anomalies\<close> returns the empty list. With exactly ten rows it runs the
  model: when \<open>fit\<close> and \<open>predict\<close> succeed on the ten feature rows, the result is
  the rows that \<open>predict\<close> labels \<open>-1\<close>.
\<close>

theorem detect_anomalies_threshold:
  "(count_logs d < 10 \<longrightarrow> detect_anomalies sklearn g d = [])
   \<and> (count_logs d = 9 \<longrightarrow> detect_anomalies sklearn g d = [])
   \<and> (count_logs d = 10
        \<and> fit sklearn g (1 / 10) (Some 42)
            (map (\<lambda>r. (bytes_sent r, bytes_received r)) (network_logs d)) = Inr clf
        \<and> predict sklearn clf
            (map (\<lambda>r. (bytes_sent r, bytes_received r)) (network_logs d)) = Inr predictions
        \<and> length predictions = 10
      \<longrightarrow> detect_anomalies sklearn g d
            = map fst (filter (\<lambda>(r, p). p = - 1) (zip (network_logs d) predictions)))"
  by (simp add: detect_anomalies_def detect_body_def count_logs_def select_all_logs_def Let_def)

theorem detect_anomalies_threshold_witness:
  "count_logs (db_of logs9) = 9 \<and> detect_anomalies toy_forest 0 (db_of logs9) = []
   \<and> count_logs (db_of logs10) = 10
   \<and> detect_anomalies toy_forest 0 (db_of logs10) = [sample ''a8'' 50000 60000]"
proof -
  let ?X = "map (\<lambda>r. (bytes_sent r, bytes_received r)) (network_logs (db_of logs10))"
  let ?ps = "[1, 1, 1, 1, 1, 1, 1, 1, - 1, 1] :: int list"
  have c9: "count_logs (db_of logs9) = 9"
    by (simp add: count_logs_def db_of_def logs9_def)
  have c10: "count_logs (db_of logs10) = 10"
    by (simp add: count_logs_def db_of_def logs10_def logs9_def)
  have X: "?X = [(100, 200), (150, 250), (300, 100), (400, 4000), (120, 900), (2000, 1000),
                 (4500, 100), (700, 700), (50000, 60000), (130, 140)]"
    by (simp add: db_of_def logs10_def logs9_def sample_def)
  have f: "fit toy_forest 0 (1 / 10) (Some 42) ?X = Inr 42000"
    unfolding X by (simp add: toy_forest_def)
  have p: "predict toy_forest 42000 ?X = Inr ?ps"
    unfolding X by (simp add: toy_forest_def)
  have l: "length ?ps = 10" by simp
  from detect_anomalies_threshold [where d = "db_of logs9" and sklearn = toy_forest and g = 0] c9
  have a: "detect_anomalies toy_forest 0 (db_of logs9) = []" by simp
  from detect_anomalies_threshold [where d = "db_of logs10" and sklearn = toy_forest and g = 0
      and clf = 42000 and predictions = ?ps] c10 f p l
  have "detect_anomalies toy_forest 0 (db_of logs10)
          = map fst (filter (\<lambda>(r, p). p = - 1) (zip (network_logs (db_of logs10)) ?ps))"
    by blast
  then have b: "detect_anomalies toy_forest 0 (db_of logs10) = [sample ''a8'' 50000 60000]"
    by (simp add: db_of_def logs10_def logs9_def)
  from c9 a c10 b show ?thesis by blast
qed

text \<open>
  C4. \<^verbatim>\<open>detect_anomalies\<close> always passes \<^verbatim>\<open>contamination=0.1\<close> and
  \<^verbatim>\<open>random_state=42\<close>. For a library whose \<open>fit\<close> with that seed does not depend on
  the state of the global random generator, two invocations on the same table return
  the same anomalies, whatever the generator states \<open>g\<close> and \<open>g'\<close> at the two calls.
\<close>

theorem detect_anomalies_deterministic:
  assumes "\<And>g g' X. fit sklearn g (1 / 10) (Some 42) X = fit sklearn g' (1 / 10) (Some 42) X"
  shows "detect_anomalies sklearn g d = detect_anomalies sklearn g' d"
proof -
  have "detect_body sklearn g df = detect_body sklearn g' df" for df
    unfolding detect_body_def Let_def
    using assms [of g "map (\<lambda>r. (bytes_sent r, bytes_received r)) df" g'] by simp
  then show ?thesis by (simp add: detect_anomalies_def)
qed

theorem detect_anomalies_deterministic_witness:
  "10 \<le> count_logs (db_of logs10)
   \<and> detect_anomalies toy_forest 3 (db_of logs10) = detect_anomalies toy_forest 77 (db_of logs10)"
proof -
  have s: "fit toy_forest g (1 / 10) (Some 42) X = fit toy_forest g' (1 / 10) (Some 42) X" for g g' X
    by (simp add: toy_forest_def)
  have "10 \<le> count_logs (db_of logs10)"
    by (simp add: count_logs_def db_of_def logs10_def logs9_def)
  with detect_anomalies_deterministic [where sklearn = toy_forest and g = 3 and g' = 77
      and d = "db_of logs10", OF s]
  show ?thesis by simp
qed

text \<open>
  C5. A failure inside the \<^verbatim>\<open>try\<close> block does not leave \<^verbatim>\<open>detect_anomalies\<close>: when
  \<open>fit\<close> raises on the feature rows, when \<open>predict\<close> raises, and in general when the
  block ends in any exception, the function returns the empty list.
\<close>

theorem detect_anomalies_catches_failures:
  "(fit sklearn g (1 / 10) (Some 42)
      (map (\<lambda>r. (bytes_sent r, bytes_received r)) (network_logs d)) = Inl e
      \<longrightarrow> detect_anomalies sklearn g d = [])
   \<and> (fit sklearn g (1 / 10) (Some 42)
        (map (\<lambda>r. (bytes_sent r, bytes_received r)) (network_logs d)) = Inr clf
      \<and> predict sklearn clf
        (map (\<lambda>r. (bytes_sent r, bytes_received r)) (network_logs d)) = Inl e
      \<longrightarrow> detect_anomalies sklearn g d = [])
   \<and> (detect_body sklearn g (select_all_logs d) = Inl e \<longrightarrow> detect_anomalies sklearn g d = [])"
  by (simp add: detect_anomalies_def detect_body_def select_all_logs_def Let_def)

theorem detect_anomalies_catches_failures_witness:
  "10 \<le> count_logs (db_of logs10) \<and> detect_anomalies failing_forest 0 (db_of logs10) = []"
proof -
  have "fit failing_forest 0 (1 / 10) (Some 42)
          (map (\<lambda>r. (bytes_sent r, bytes_received r)) (network_logs (db_of logs10))) = Inl ValueError"
    by (simp add: failing_forest_def)
  with detect_anomalies_catches_failures [where sklearn = failing_forest and g = 0
      and d = "db_of logs10" and e = ValueError]
  have "detect_anomalies failing_forest 0 (db_of logs10) = []" by blast
  moreover have "10 \<le> count_logs (db_of logs10)"
    by (simp add: count_logs_def db_of_def logs10_def logs9_def)
  ultimately show ?thesis by blast
qed

subsection \<open>Append-only log store\<close>

lemma log_network_activity_extends:
  "\<exists>es. network_logs (snd (log_network_activity e d)) = network_logs d @ es"
  by (simp add: log_network_activity_def)

lemma exec_extends:
  assumes "\<not> clears op"
  shows "\<exists>d' es. exec op (Some d) = Some d' \<and> network_logs d' = network_logs d @ es"
proof (cases op)
  case (Log_network_activity e)
  with log_network_activity_extends [of e d] show ?thesis by simp
next
  case (Monitor_network_traffic app nc uuids clock)
  then show ?thesis by (simp add: monitor_network_traffic_unchanged)
next
  case (Create_policy uuid4 data)
  then show ?thesis by (simp add: create_policy_def split: option.splits)
qed (use assms in \<open>simp_all add: init_db_def\<close>)

lemma run_extends:
  assumes "\<forall>op \<in> set ops. \<not> clears op"
  shows "\<exists>d' es. run ops (Some d) = Some d' \<and> network_logs d' = network_logs d @ es"
  using assms
proof (induction ops arbitrary: d)
  case Nil
  show ?case by simp
next
  case (Cons op ops)
  then have "\<not> clears op" and rest: "\<forall>op \<in> set ops. \<not> clears op" by simp_all
  from exec_extends [OF this(1), of d] obtain d1 es1 where
    s1: "exec op (Some d) = Some d1" "network_logs d1 = network_logs d @ es1"
    by blast
  from Cons.IH [OF rest, of d1] obtain d2 es2 where
    s2: "run ops (Some d1) = Some d2" "network_logs d2 = network_logs d1 @ es2"
    by blast
  from s1 s2 have "run (op # ops) (Some d) = Some d2 \<and> network_logs d2 = network_logs d @ (es1 @ es2)"
    by simp
  then show ?case by blast
qed

text \<open>
  C8, as the code has it. A sequence of operations with neither
  \<^verbatim>\<open>cleanup_network_logs\<close> nor \<^verbatim>\<open>remove_database_file\<close> in it does not reduce the
  count of the log store: the tables are still there, and the rows present before are
  still there, in front. After a \<^verbatim>\<open>cleanup_network_logs\<close> on a file that is not
  write-locked the count is 0 and the full query returns no row; on a write-locked
  file its statement fails, the function returns normally and the store is as before.
\<close>

theorem log_store_append_only:
  "((\<forall>op \<in> set ops. \<not> clears op) \<longrightarrow>
      (\<exists>d'. run ops (Some d) = Some d' \<and> count_logs d \<le> count_logs d'
         \<and> (\<exists>es. select_all_logs d' = select_all_logs d @ es)))
   \<and> (\<not> write_locked d \<longrightarrow>
         count_logs (cleanup_network_logs d) = 0 \<and> select_all_logs (cleanup_network_logs d) = [])
   \<and> (write_locked d \<longrightarrow> cleanup_network_logs d = d)"
proof -
  have "\<exists>d'. run ops (Some d) = Some d' \<and> count_logs d \<le> count_logs d'
         \<and> (\<exists>es. select_all_logs d' = select_all_logs d @ es)"
    if "\<forall>op \<in> set ops. \<not> clears op"
  proof -
    from run_extends [OF that, of d] obtain d' es where
      "run ops (Some d) = Some d'" "network_logs d' = network_logs d @ es"
      by blast
    then show ?thesis by (auto simp: count_logs_def select_all_logs_def)
  qed
  then show ?thesis
    by (simp add: count_logs_def select_all_logs_def cleanup_network_logs_def)
qed

theorem log_store_append_only_witness:
  "filter clears ops1 = []
   \<and> run ops1 (Some new_db)
       = Some \<lparr>app_policies = [policy_values ''uuid-a'' ''chrome.exe'' request1],
               network_logs = [entry1, entry2], write_locked = True\<rparr>
   \<and> count_logs new_db \<le> count_logs (the (run ops1 (Some new_db)))
   \<and> \<not> write_locked (db_of [entry1, entry2])
   \<and> count_logs (cleanup_network_logs (db_of [entry1, entry2])) = 0
   \<and> select_all_logs (cleanup_network_logs (db_of [entry1, entry2])) = []
   \<and> write_locked (the (run ops1 (Some new_db)))
   \<and> cleanup_network_logs (the (run ops1 (Some new_db))) = the (run ops1 (Some new_db))"
proof -
  let ?d1 = "\<lparr>app_policies = [policy_values ''uuid-a'' ''chrome.exe'' request1],
               network_logs = [entry1, entry2], write_locked = True\<rparr>"
  have h: "\<forall>op \<in> set ops1. \<not> clears op" by (simp add: ops1_def)
  have r: "run ops1 (Some new_db) = Some ?d1"
    by (simp add: ops1_def new_db_def init_db_def log_network_activity_def create_policy_def
        request1_def entry1_def entry2_def entry1_again_def monitor_network_traffic_unchanged
        sqlite_integer_def insert_or_replace_def policy_values_def)
  have u: "\<not> write_locked (db_of [entry1, entry2])" by (simp add: db_of_def)
  have l: "write_locked ?d1" by simp
  from log_store_append_only [where ops = ops1 and d = new_db] h r
  have a: "count_logs new_db \<le> count_logs (the (run ops1 (Some new_db)))" by auto
  from log_store_append_only [where ops = "[]" and d = "db_of [entry1, entry2]"] u
  have b: "count_logs (cleanup_network_logs (db_of [entry1, entry2])) = 0
           \<and> select_all_logs (cleanup_network_logs (db_of [entry1, entry2])) = []" by blast
  from log_store_append_only [where ops = "[]" and d = ?d1] l
  have c: "cleanup_network_logs ?d1 = ?d1" by blast
  have f: "filter clears ops1 = []" by (simp add: ops1_def)
  from f r a u b c l show ?thesis by simp
qed

text \<open>
  C8 as stated fails, in both halves. Without \<^verbatim>\<open>cleanup_network_logs\<close>:
  \<^verbatim>\<open>remove_database_file\<close> followed by \<^verbatim>\<open>init_db\<close> takes a store of one row to
  count 0. With it: after a second append of the id \<open>id-1\<close> has failed and left the
  file write-locked, \<^verbatim>\<open>cleanup_network_logs\<close> runs, and the count is still 1.
\<close>

theorem log_store_append_only_counterexample:
  "Cleanup_network_logs \<notin> set [Remove_database_file (Inr ()), Init_db]
   \<and> count_logs (db_of [entry1]) = 1
   \<and> run [Remove_database_file (Inr ()), Init_db] (Some (db_of [entry1])) = Some new_db
   \<and> count_logs new_db = 0
   \<and> count_logs (cleanup_network_logs
        (snd (log_network_activity entry1_again (snd (log_network_activity entry1 new_db))))) = 1"
  by (simp add: db_of_def count_logs_def remove_database_file_def init_db_def new_db_def
      log_network_activity_def cleanup_network_logs_def entry1_def entry1_again_def
      sqlite_integer_def)

end
